theory Spec2Isabelle
  imports Complex_Main
begin

section \<open>Vendor invoice engine: a shallow embedding\<close>

text \<open>
  The development follows the Python sources module by module:
  \<^verbatim>\<open>utils/s3_utils.py\<close>, \<^verbatim>\<open>utils/invoice_attachments.py\<close>,
  \<^verbatim>\<open>utils/payment_terms_calculator.py\<close>, \<^verbatim>\<open>utils/invoice_data.py\<close>,
  \<^verbatim>\<open>utils/currency_utils.py\<close>, \<^verbatim>\<open>utils/invoice_service.py\<close> and the
  creation page \<^verbatim>\<open>pages/1_Create_Invoice.py\<close>.

  Conventions of the model.
  \<^item> A Python \<^verbatim>\<open>str\<close> is a \<^typ>\<open>string\<close>; a character stands for the code point
    of the same number, so the model covers the texts whose code points are below 256.
  \<^item> Python's unbounded \<^verbatim>\<open>int\<close> is \<^typ>\<open>nat\<close> or \<^typ>\<open>int\<close>.
  \<^item> Quantities, unit costs, VAT percents, exchange rates and money amounts are exact
    rationals (\<^typ>\<open>rat\<close>): the database columns are decimals, and the binary rounding of
    Python's \<^verbatim>\<open>float\<close> is outside the model.
  \<^item> A raised exception is a value \<open>Inl e\<close> of a sum type.
  \<^item> The clock, the object store, the rate API and the database are explicit arguments.
\<close>

subsection \<open>Python built-ins used by the sources\<close>

datatype py_error = ValueError | OverflowError

definition digit_char :: "nat \<Rightarrow> char" where
  "digit_char d = ''0123456789'' ! d"

text \<open>\<^verbatim>\<open>str(n)\<close> for a non-negative integer: its decimal digits.\<close>

function str_nat :: "nat \<Rightarrow> string" where
  "str_nat n = (if n < 10 then [digit_char n] else str_nat (n div 10) @ [digit_char (n mod 10)])"
  by pat_completeness auto
termination
  by (relation "measure id") auto

declare str_nat.simps [simp del]

text \<open>\<^verbatim>\<open>s.replace(' ', '_')\<close>.\<close>

definition replace_space :: "string \<Rightarrow> string" where
  "replace_space s = map (\<lambda>c. if c = CHR '' '' then CHR ''_'' else c) s"

subsection \<open>Object store: \<^verbatim>\<open>S3Manager\<close> (utils/s3\_utils.py)\<close>

text \<open>
  The bucket is the list of keys stored so far. \<open>put_ok key\<close> tells whether
  \<^verbatim>\<open>put_object\<close> succeeds for that key (otherwise it raises, and
  \<^verbatim>\<open>upload_invoice_file\<close> catches the exception). The millisecond timestamp read from
  the clock is the argument \<open>ts\<close>. The text of the caught exception, which the source
  appends to the error message, is not modelled.
\<close>

definition upload_invoice_file ::
  "(string \<Rightarrow> bool) \<Rightarrow> nat \<Rightarrow> string list \<Rightarrow> string \<Rightarrow> string \<Rightarrow> (bool \<times> string) \<times> string list" where
  "upload_invoice_file put_ok ts bucket file_content filename =
     (let safe_filename = replace_space filename;
          s3_key = ''purchase-invoice-file/'' @ str_nat ts @ ''_'' @ safe_filename
      in if put_ok s3_key then ((True, s3_key), bucket @ [s3_key])
         else ((False, ''Failed to upload invoice file '' @ filename), bucket))"

record batch_result =
  success :: bool
  uploaded :: "string list"
  failed :: "(string \<times> string) list"
  total_files :: nat
  success_count :: nat
  error_count :: nat

text \<open>
  The body of the \<^verbatim>\<open>for idx, (file_content, filename) in enumerate(files, 1)\<close> loop of
  \<^verbatim>\<open>batch_upload_invoice_files\<close>; \<open>clock idx\<close> is the timestamp read during the
  \<open>idx\<close>-th upload. A failed entry is the pair (filename, error).
\<close>

fun batch_loop ::
  "(string \<Rightarrow> bool) \<Rightarrow> (nat \<Rightarrow> nat) \<Rightarrow> nat \<Rightarrow> (string \<times> string) list \<Rightarrow>
   batch_result \<times> string list \<Rightarrow> batch_result \<times> string list" where
  "batch_loop put_ok clock idx [] (results, bucket) = (results, bucket)"
| "batch_loop put_ok clock idx ((file_content, filename) # files) (results, bucket) =
     (case upload_invoice_file put_ok (clock idx) bucket file_content filename of
        ((True, result), bucket') \<Rightarrow>
          batch_loop put_ok clock (Suc idx) files
            (results\<lparr>uploaded := uploaded results @ [result],
                     success_count := success_count results + 1\<rparr>, bucket')
      | ((False, result), bucket') \<Rightarrow>
          batch_loop put_ok clock (Suc idx) files
            (results\<lparr>failed := failed results @ [(filename, result)],
                     error_count := error_count results + 1\<rparr>, bucket'))"

definition batch_upload_invoice_files ::
  "(string \<Rightarrow> bool) \<Rightarrow> (nat \<Rightarrow> nat) \<Rightarrow> string list \<Rightarrow> (string \<times> string) list \<Rightarrow>
   batch_result \<times> string list" where
  "batch_upload_invoice_files put_ok clock bucket files =
     (let results = \<lparr>success = False, uploaded = [], failed = [], total_files = length files,
                      success_count = 0, error_count = 0\<rparr>
      in if files = [] then (results\<lparr>success := True\<rparr>, bucket)
         else (case batch_loop put_ok clock 1 files (results, bucket) of
                 (results', bucket') \<Rightarrow>
                   (results'\<lparr>success := (error_count results' = 0)\<rparr>, bucket')))"

subsection \<open>Text: the \<^verbatim>\<open>str\<close> and \<^verbatim>\<open>re\<close> operations of the sources\<close>

text \<open>
  \<^verbatim>\<open>\s\<close> of a \<^verbatim>\<open>str\<close> pattern, and the characters dropped by \<^verbatim>\<open>str.split()\<close> and
  \<^verbatim>\<open>str.strip()\<close>: below 256 these are the code points 9 to 13, 28 to 32, 133 and 160.
  \<^verbatim>\<open>\d\<close> is a decimal digit, below 256 only \<^verbatim>\<open>0\<close> to \<^verbatim>\<open>9\<close>.
\<close>

definition is_space :: "char \<Rightarrow> bool" where
  "is_space c = (let n = (of_char c :: nat) in
     (9 \<le> n \<and> n \<le> 13) \<or> (28 \<le> n \<and> n \<le> 32) \<or> n = 133 \<or> n = 160)"

definition is_digit :: "char \<Rightarrow> bool" where
  "is_digit c = (let n = (of_char c :: nat) in 48 \<le> n \<and> n \<le> 57)"

definition is_ascii_upper :: "char \<Rightarrow> bool" where
  "is_ascii_upper c = (let n = (of_char c :: nat) in 65 \<le> n \<and> n \<le> 90)"

definition is_ascii_lower :: "char \<Rightarrow> bool" where
  "is_ascii_lower c = (let n = (of_char c :: nat) in 97 \<le> n \<and> n \<le> 122)"

text \<open>
  \<^verbatim>\<open>str.upper()\<close>, one character at a time. The letters \<^verbatim>\<open>a\<close> to \<^verbatim>\<open>z\<close> and the
  accented letters 224 to 254 (not the division sign 247) move down by 32; the sharp s
  (223) becomes \<^verbatim>\<open>SS\<close>. The capitals of 181 and 255 lie above 255: the model leaves these
  two characters as they are, which no test of the sources can tell apart (they are neither
  ASCII, nor digits, nor spaces, before or after).
\<close>

definition upper_char :: "char \<Rightarrow> string" where
  "upper_char c = (let n = (of_char c :: nat) in
     if n = 223 then ''SS''
     else if (97 \<le> n \<and> n \<le> 122) \<or> (224 \<le> n \<and> n \<le> 254 \<and> n \<noteq> 247) then [char_of (n - 32)]
     else [c])"

definition upper :: "string \<Rightarrow> string" where
  "upper s = concat (map upper_char s)"

text \<open>\<^verbatim>\<open>str.lower()\<close>: \<^verbatim>\<open>A\<close> to \<^verbatim>\<open>Z\<close> and 192 to 222 (not 215) move up by 32.\<close>

definition lower_char :: "char \<Rightarrow> char" where
  "lower_char c = (let n = (of_char c :: nat) in
     if (65 \<le> n \<and> n \<le> 90) \<or> (192 \<le> n \<and> n \<le> 222 \<and> n \<noteq> 215) then char_of (n + 32) else c)"

definition lower :: "string \<Rightarrow> string" where
  "lower s = map lower_char s"

text \<open>\<^verbatim>\<open>s.startswith(p)\<close> and \<^verbatim>\<open>sub in s\<close>.\<close>

fun starts_with :: "string \<Rightarrow> string \<Rightarrow> bool" where
  "starts_with s [] = True"
| "starts_with [] (p # ps) = False"
| "starts_with (c # s) (p # ps) = (c = p \<and> starts_with s ps)"

fun contains :: "string \<Rightarrow> string \<Rightarrow> bool" where
  "contains [] sub = (sub = [])"
| "contains (c # s) sub = (starts_with (c # s) sub \<or> contains s sub)"

text \<open>\<^verbatim>\<open>s.strip()\<close> and \<^verbatim>\<open>s.split()\<close> (split on runs of white space).\<close>

definition strip :: "string \<Rightarrow> string" where
  "strip s = rev (dropWhile is_space (rev (dropWhile is_space s)))"

fun split_ws_aux :: "string \<Rightarrow> string \<Rightarrow> string list" where
  "split_ws_aux cur [] = (if cur = [] then [] else [rev cur])"
| "split_ws_aux cur (c # s) =
     (if is_space c then (if cur = [] then split_ws_aux [] s else rev cur # split_ws_aux [] s)
      else split_ws_aux (c # cur) s)"

definition split_ws :: "string \<Rightarrow> string list" where
  "split_ws s = split_ws_aux [] s"

text \<open>\<^verbatim>\<open>int(digits)\<close> for a run of decimal digits.\<close>

definition digit_val :: "char \<Rightarrow> nat" where
  "digit_val c = of_char c - 48"

definition int_of_digits :: "string \<Rightarrow> nat" where
  "int_of_digits ds = foldl (\<lambda>a c. 10 * a + digit_val c) 0 ds"

text \<open>
  A pattern is modelled by its matcher at the start of a text: the matcher returns the
  captured group and the length of the match. \<^verbatim>\<open>re.search\<close> tries the start positions
  from left to right; \<^verbatim>\<open>re.findall\<close> collects the groups of the matches from left to
  right, each search starting where the previous match ended (the patterns of the sources
  never match the empty text).
\<close>

fun re_search :: "(string \<Rightarrow> ('a \<times> nat) option) \<Rightarrow> string \<Rightarrow> 'a option" where
  "re_search m [] = map_option fst (m [])"
| "re_search m (c # s) = (case m (c # s) of Some (g, n) \<Rightarrow> Some g | None \<Rightarrow> re_search m s)"

fun re_findall_from :: "(string \<Rightarrow> ('a \<times> nat) option) \<Rightarrow> nat \<Rightarrow> string \<Rightarrow> 'a list" where
  "re_findall_from m skip [] = []"
| "re_findall_from m (Suc k) (c # s) = re_findall_from m k s"
| "re_findall_from m 0 (c # s) =
     (case m (c # s) of Some (g, n) \<Rightarrow> g # re_findall_from m (n - 1) s
                      | None \<Rightarrow> re_findall_from m 0 s)"

definition re_findall :: "(string \<Rightarrow> ('a \<times> nat) option) \<Rightarrow> string \<Rightarrow> 'a list" where
  "re_findall m s = re_findall_from m 0 s"

text \<open>
  The matchers. All quantifiers of the patterns are greedy, and in each pattern the
  character that must follow a run cannot belong to the run (a digit is no space, and
  \<^verbatim>\<open>D\<close> is neither), so giving back part of a run never helps: a pattern matches at
  a position exactly when it matches with every run taken whole.

  \<open>pat_digits\<close> is \<^verbatim>\<open>(\d+)\<close>; \<open>pat_kw_digits kw\<close> is \<^verbatim>\<open>kw\s+(\d+)\<close>;
  \<open>pat_kw_digits_days kw\<close> is \<^verbatim>\<open>kw\s+(\d+)\s*DAYS?\<close>; \<open>pat_digits_days\<close> is
  \<^verbatim>\<open>(\d+)\s*DAYS?\<close>; \<open>pat_eom_digits\<close> is \<^verbatim>\<open>EOM\s*(\d+)\<close>.
\<close>

definition pat_digits :: "string \<Rightarrow> (string \<times> nat) option" where
  "pat_digits s = (let ds = takeWhile is_digit s in
     if ds = [] then None else Some (ds, length ds))"

definition pat_days_tail :: "string \<Rightarrow> nat option" where
  "pat_days_tail s = (let ws = takeWhile is_space s; r = dropWhile is_space s in
     if starts_with r ''DAYS'' then Some (length ws + 4)
     else if starts_with r ''DAY'' then Some (length ws + 3)
     else None)"

definition pat_kw_digits :: "string \<Rightarrow> string \<Rightarrow> (string \<times> nat) option" where
  "pat_kw_digits kw s =
     (if starts_with s kw then
        (let r = drop (length kw) s; ws = takeWhile is_space r; r' = dropWhile is_space r;
             ds = takeWhile is_digit r'
         in if ws = [] \<or> ds = [] then None else Some (ds, length kw + length ws + length ds))
      else None)"

definition pat_kw_digits_days :: "string \<Rightarrow> string \<Rightarrow> (string \<times> nat) option" where
  "pat_kw_digits_days kw s =
     (case pat_kw_digits kw s of
        None \<Rightarrow> None
      | Some (ds, n) \<Rightarrow>
          (case pat_days_tail (drop n s) of None \<Rightarrow> None | Some k \<Rightarrow> Some (ds, n + k)))"

definition pat_digits_days :: "string \<Rightarrow> (string \<times> nat) option" where
  "pat_digits_days s =
     (case pat_digits s of
        None \<Rightarrow> None
      | Some (ds, n) \<Rightarrow>
          (case pat_days_tail (drop n s) of None \<Rightarrow> None | Some k \<Rightarrow> Some (ds, n + k)))"

definition pat_eom_digits :: "string \<Rightarrow> (string \<times> nat) option" where
  "pat_eom_digits s =
     (if starts_with s ''EOM'' then
        (let r = drop 3 s; ws = takeWhile is_space r; ds = takeWhile is_digit (dropWhile is_space r)
         in if ds = [] then None else Some (ds, 3 + length ws + length ds))
      else None)"

section \<open>Properties\<close>

subsection \<open>Batch upload\<close>

lemma batch_loop_counts:
  "batch_loop put_ok clock idx files (r, b) = (r', b') \<Longrightarrow>
     success_count r' + error_count r' = success_count r + error_count r + length files \<and>
     length (uploaded r') + success_count r = success_count r' + length (uploaded r) \<and>
     length (failed r') + error_count r = error_count r' + length (failed r) \<and>
     total_files r' = total_files r"
proof (induction files arbitrary: r b idx)
  case Nil
  then show ?case by simp
next
  case (Cons f files)
  obtain file_content filename where f: "f = (file_content, filename)"
    by (cases f)
  obtain ok result b1 where u:
    "upload_invoice_file put_ok (clock idx) b file_content filename = ((ok, result), b1)"
    by (metis surj_pair)
  show ?case
  proof (cases ok)
    case True
    with Cons.prems f u have
      "batch_loop put_ok clock (Suc idx) files
         (r\<lparr>uploaded := uploaded r @ [result], success_count := success_count r + 1\<rparr>, b1)
       = (r', b')"
      by simp
    from Cons.IH [OF this] show ?thesis by simp
  next
    case False
    with Cons.prems f u have
      "batch_loop put_ok clock (Suc idx) files
         (r\<lparr>failed := failed r @ [(filename, result)], error_count := error_count r + 1\<rparr>, b1)
       = (r', b')"
      by simp
    from Cons.IH [OF this] show ?thesis by simp
  qed
qed

text \<open>
  C10. For every list of input files the result of the batch upload satisfies:
  success count plus error count equals the total, which is the number of input files;
  the uploaded-keys list has success-count entries and the failed list error-count entries;
  and the overall success flag is true exactly when the error count is zero. An empty
  batch reports success with zero counts.
\<close>

theorem batch_upload_invariants:
  "(let r = fst (batch_upload_invoice_files put_ok clock bucket files) in
      success_count r + error_count r = total_files r \<and> total_files r = length files \<and>
      length (uploaded r) = success_count r \<and> length (failed r) = error_count r \<and>
      (success r \<longleftrightarrow> error_count r = 0)) \<and>
   (let e = fst (batch_upload_invoice_files put_ok clock bucket []) in
      success e \<and> total_files e = 0 \<and> success_count e = 0 \<and> error_count e = 0)"
proof -
  let ?r0 = "\<lparr>success = False, uploaded = [], failed = [], total_files = length files,
               success_count = 0, error_count = 0\<rparr>"
  obtain r' b' where l: "batch_loop put_ok clock 1 files (?r0, bucket) = (r', b')"
    by (metis surj_pair)
  from batch_loop_counts [OF l] have
    "success_count r' + error_count r' = length files"
    "length (uploaded r') = success_count r'"
    "length (failed r') = error_count r'"
    "total_files r' = length files"
    by simp_all
  with l show ?thesis
    by (cases "files = []") (simp_all add: batch_upload_invoice_files_def Let_def)
qed

end
